theory Spec2Isabelle
  imports Main "HOL-Library.Sublist"
begin

section \<open>Errors and process exits\<close>

text \<open>
  The validation functions of \<^verbatim>\<open>cp-url-syntax\<close> return nothing: they either fall
  through or end the process (\<^verbatim>\<open>FatalIf\<close>, \<^verbatim>\<open>console.Fatalf\<close>,
  \<^verbatim>\<open>cli.ShowCommandHelpAndExit\<close>). An exit is the left summand of the result, falling
  through is \<open>Inr ()\<close>.

  A \<^verbatim>\<open>*probe.Error\<close> is a cause and the trace points added by \<^verbatim>\<open>Trace\<close>, each
  with the strings it was given. A nil error is \<open>None\<close>.
\<close>

datatype probe_cause = DummyCause | InvalidArgumentCause | ExternalCause string

datatype probe_error = ProbeError (cause: probe_cause) (callTrace: "string list list")

definition errDummy :: probe_error where
  "errDummy = ProbeError DummyCause []"

definition errInvalidArgument :: probe_error where
  "errInvalidArgument = ProbeError InvalidArgumentCause []"

fun Trace :: "probe_error \<Rightarrow> string list \<Rightarrow> probe_error" where
  "Trace (ProbeError c t) fields = ProbeError c (t @ [fields])"

datatype exit =
    ShowCommandHelpAndExit string nat
  | FatalExit probe_error string
  | ConsoleFatalExit string

type_synonym 'a result = "exit + 'a"

fun FatalIf :: "probe_error option \<Rightarrow> string \<Rightarrow> unit result" where
  "FatalIf None msg = Inr ()"
| "FatalIf (Some err) msg = Inl (FatalExit err msg)"

section \<open>Locations and the collaborators\<close>

text \<open>
  Of a client URL the code reads the host, the path and the separator; of a stat result
  it reads the client (for its URL) and the content's type, asked \<^verbatim>\<open>IsDir()\<close> and
  \<^verbatim>\<open>IsRegular()\<close>. The declarations of these types are not part of the sources at
  hand, so a file mode is the pair of answers to the two questions the code asks.
\<close>

record ClientURL =
  Host :: string
  Path :: string
  Separator :: char

record Client =
  GetURL :: ClientURL

record FileMode =
  IsDir :: bool
  IsRegular :: bool

record ClientContent =
  Type :: FileMode

text \<open>
  \<^verbatim>\<open>copyURLsType\<close>: the four shapes the switch of \<^verbatim>\<open>checkCopySyntax\<close> names, and
  one more constructor for every value that reaches its \<^verbatim>\<open>default\<close> branch.
\<close>

datatype copyURLsType =
    copyURLsTypeInvalid
  | copyURLsTypeA
  | copyURLsTypeB
  | copyURLsTypeC
  | copyURLsTypeD

text \<open>
  The functions and constants that \<^verbatim>\<open>checkCopySyntax\<close> calls and that are defined
  elsewhere are parameters: \<^verbatim>\<open>url2Stat(ctx, url, false, keys)\<close> (the error, or the
  client and the content), \<^verbatim>\<open>isURLPrefixExists(url, incomplete)\<close>,
  \<^verbatim>\<open>newClientURL(url)\<close>, \<^verbatim>\<open>guessCopyURLType(ctx, srcURLs, tgtURL, isRecursive, keys)\<close>
  with its two results, the flag names \<^verbatim>\<open>rdFlag\<close> and \<^verbatim>\<open>rmFlag\<close>, and
  \<^verbatim>\<open>runtime.GOOS\<close>.
\<close>

record env =
  url2Stat :: "string \<Rightarrow> probe_error + (Client \<times> ClientContent)"
  isURLPrefixExists :: "string \<Rightarrow> bool \<Rightarrow> bool"
  newClientURL :: "string \<Rightarrow> ClientURL"
  guessCopyURLType :: "string list \<Rightarrow> string \<Rightarrow> bool \<Rightarrow> copyURLsType \<times> probe_error option"
  rdFlag :: string
  rmFlag :: string
  GOOS :: string

record cliContext =
  Args :: "string list"
  Bool :: "string \<Rightarrow> bool"
  String :: "string \<Rightarrow> string"

section \<open>The containment predicate\<close>

text \<open>Go's \<^verbatim>\<open>strings.HasPrefix\<close> and \<^verbatim>\<open>strings.HasSuffix\<close>.\<close>

definition HasPrefix :: "string \<Rightarrow> string \<Rightarrow> bool" where
  "HasPrefix s pre \<longleftrightarrow> length s \<ge> length pre \<and> take (length pre) s = pre"

definition HasSuffix :: "string \<Rightarrow> string \<Rightarrow> bool" where
  "HasSuffix s suf \<longleftrightarrow> length s \<ge> length suf \<and> drop (length s - length suf) s = suf"

text \<open>
  Modelled from the spec: \<^verbatim>\<open>isURLContains\<close> is called by \<^verbatim>\<open>checkCopySyntaxTypeC\<close>
  and defined elsewhere. Section 4.3: it "normalizes both paths by ensuring a trailing
  separator, then returns true iff the descendant path, so normalized, begins with the
  ancestor path, so normalized". The separator is a string, as at the call site.
\<close>

definition ensureTrailingSeparator :: "string \<Rightarrow> string \<Rightarrow> string" where
  "ensureTrailingSeparator url sep = (if HasSuffix url sep then url else url @ sep)"

definition isURLContains :: "string \<Rightarrow> string \<Rightarrow> string \<Rightarrow> bool" where
  "isURLContains srcURL tgtURL sep =
     HasPrefix (ensureTrailingSeparator tgtURL sep) (ensureTrailingSeparator srcURL sep)"

section \<open>The validators\<close>

definition checkCopySyntaxTypeA :: "env \<Rightarrow> string list \<Rightarrow> string \<Rightarrow> bool \<Rightarrow> unit result" where
  "checkCopySyntaxTypeA e srcURLs tgtURL isMvCmd =
     (if length srcURLs \<noteq> 1
      then Inl (FatalExit (Trace errInvalidArgument []) ''Invalid number of source arguments.'')
      else
        let srcURL = hd srcURLs in
        (case url2Stat e srcURL of
           Inl err \<Rightarrow>
             FatalIf (Some (Trace err [srcURL])) (''Unable to stat source `'' @ srcURL @ ''`.'')
         | Inr (c, srcContent) \<Rightarrow>
             if \<not> IsRegular (Type srcContent)
             then Inl (FatalExit (Trace errInvalidArgument [])
                        (''Source `'' @ srcURL @ ''` is not a file.''))
             else Inr ()))"

definition checkCopySyntaxTypeB :: "env \<Rightarrow> string list \<Rightarrow> string \<Rightarrow> bool \<Rightarrow> unit result" where
  "checkCopySyntaxTypeB e srcURLs tgtURL isMvCmd =
     (if length srcURLs \<noteq> 1
      then Inl (FatalExit (Trace errInvalidArgument []) ''Invalid number of source arguments.'')
      else
        let srcURL = hd srcURLs in
        (case url2Stat e srcURL of
           Inl err \<Rightarrow>
             FatalIf (Some (Trace err [srcURL])) (''Unable to stat source `'' @ srcURL @ ''`.'')
         | Inr (c, srcContent) \<Rightarrow>
             if \<not> IsRegular (Type srcContent)
             then Inl (FatalExit (Trace errInvalidArgument [srcURL])
                        (''Source `'' @ srcURL @ ''` is not a file.''))
             else
               (case url2Stat e tgtURL of
                  Inl err \<Rightarrow> Inr ()
                | Inr (c', tgtContent) \<Rightarrow>
                    if \<not> IsDir (Type tgtContent)
                    then Inl (FatalExit (Trace errInvalidArgument [tgtURL])
                               (''Target `'' @ tgtURL @ ''` is not a folder.''))
                    else Inr ())))"

text \<open>The loop of \<^verbatim>\<open>checkCopySyntaxTypeC\<close> over the sources.\<close>

fun checkCopySyntaxTypeC_sources ::
  "env \<Rightarrow> string list \<Rightarrow> string \<Rightarrow> bool \<Rightarrow> bool \<Rightarrow> unit result" where
  "checkCopySyntaxTypeC_sources e [] tgtURL isRecursive isMvCmd = Inr ()"
| "checkCopySyntaxTypeC_sources e (srcURL # rest) tgtURL isRecursive isMvCmd =
     (case url2Stat e srcURL of
        Inl err \<Rightarrow>
          let isIncomplete = False in
          if \<not> isURLPrefixExists e srcURL isIncomplete
          then FatalIf (Some (Trace err [srcURL])) (''Unable to stat source `'' @ srcURL @ ''`.'')
          else checkCopySyntaxTypeC_sources e rest tgtURL isRecursive isMvCmd
      | Inr (c, srcContent) \<Rightarrow>
          if IsDir (Type srcContent)
          then
            if \<not> isRecursive
            then Inl (FatalExit (Trace errInvalidArgument [srcURL])
                       (''To '' @ (if isMvCmd then ''move'' else ''copy'')
                          @ '' a folder requires --recursive flag.''))
            else if isURLContains srcURL tgtURL [Separator (GetURL c)]
            then Inl (FatalExit (Trace errInvalidArgument [])
                       ((if isMvCmd then ''Moving'' else ''Copying'')
                          @ '' a folder into itself is not allowed.''))
            else checkCopySyntaxTypeC_sources e rest tgtURL isRecursive isMvCmd
          else checkCopySyntaxTypeC_sources e rest tgtURL isRecursive isMvCmd)"

definition checkCopySyntaxTypeC ::
  "env \<Rightarrow> string list \<Rightarrow> string \<Rightarrow> bool \<Rightarrow> bool \<Rightarrow> unit result" where
  "checkCopySyntaxTypeC e srcURLs tgtURL isRecursive isMvCmd =
     (if length srcURLs \<noteq> 1
      then Inl (FatalExit (Trace errInvalidArgument []) ''Invalid number of source arguments.'')
      else
        (case url2Stat e tgtURL of
           Inl err \<Rightarrow> checkCopySyntaxTypeC_sources e srcURLs tgtURL isRecursive isMvCmd
         | Inr (c, tgtContent) \<Rightarrow>
             if \<not> IsDir (Type tgtContent)
             then Inl (FatalExit (Trace errInvalidArgument [tgtURL])
                        (''Target `'' @ tgtURL @ ''` is not a folder.''))
             else checkCopySyntaxTypeC_sources e srcURLs tgtURL isRecursive isMvCmd))"

definition checkCopySyntaxTypeD :: "env \<Rightarrow> string list \<Rightarrow> string \<Rightarrow> bool \<Rightarrow> unit result" where
  "checkCopySyntaxTypeD e srcURLs tgtURL isMvCmd =
     (case url2Stat e tgtURL of
        Inl err \<Rightarrow> Inr ()
      | Inr (c, tgtContent) \<Rightarrow>
          if \<not> IsDir (Type tgtContent)
          then Inl (FatalExit (Trace errInvalidArgument [tgtURL])
                     (''Target `'' @ tgtURL @ ''` is not a folder.''))
          else Inr ())"

text \<open>The first loop of \<^verbatim>\<open>checkCopySyntax\<close>: every source must stat.\<close>

fun checkCopySyntax_sources :: "env \<Rightarrow> string list \<Rightarrow> unit result" where
  "checkCopySyntax_sources e [] = Inr ()"
| "checkCopySyntax_sources e (srcURL # rest) =
     (case url2Stat e srcURL of
        Inl err \<Rightarrow> Inl (ConsoleFatalExit (''Unable to validate source '' @ srcURL @ [CHR 0x0A]))
      | Inr st \<Rightarrow> checkCopySyntax_sources e rest)"

definition retentionFlagsMessage :: "env \<Rightarrow> string" where
  "retentionFlagsMessage e =
     ''Both object retention flags `--'' @ rdFlag e @ ''` and `--'' @ rmFlag e
       @ ''` are required.'' @ [CHR 0x0A]"

text \<open>The switch of \<^verbatim>\<open>checkCopySyntax\<close> on the guessed type.\<close>

definition checkCopySyntax_switch ::
  "env \<Rightarrow> copyURLsType \<Rightarrow> string list \<Rightarrow> string \<Rightarrow> bool \<Rightarrow> bool \<Rightarrow> unit result" where
  "checkCopySyntax_switch e copyURLsType srcURLs tgtURL isRecursive isMvCmd =
     (case copyURLsType of
        copyURLsTypeA \<Rightarrow> checkCopySyntaxTypeA e srcURLs tgtURL isMvCmd
      | copyURLsTypeB \<Rightarrow> checkCopySyntaxTypeB e srcURLs tgtURL isMvCmd
      | copyURLsTypeC \<Rightarrow> checkCopySyntaxTypeC e srcURLs tgtURL isRecursive isMvCmd
      | copyURLsTypeD \<Rightarrow> checkCopySyntaxTypeD e srcURLs tgtURL isMvCmd
      | copyURLsTypeInvalid \<Rightarrow>
          Inl (FatalExit (Trace errInvalidArgument [])
                (''Unable to guess the type of '' @ (if isMvCmd then ''move'' else ''copy'')
                   @ '' operation.'')))"

definition checkCopySyntax :: "env \<Rightarrow> cliContext \<Rightarrow> bool \<Rightarrow> unit result" where
  "checkCopySyntax e cliCtx isMvCmd =
     (if length (Args cliCtx) < 2
      then Inl (ShowCommandHelpAndExit (if isMvCmd then ''mv'' else ''cp'') 1)
      else
        let URLs = Args cliCtx in
        if length URLs < 2
        then Inl (FatalExit (Trace errDummy (Args cliCtx))
                   ''Unable to parse source and target arguments.'')
        else
          let srcURLs = butlast URLs;
              tgtURL = last URLs;
              isRecursive = Bool cliCtx ''recursive''
          in
          (case checkCopySyntax_sources e srcURLs of
             Inl ex \<Rightarrow> Inl ex
           | Inr u \<Rightarrow>
               let url = newClientURL e tgtURL in
               if Host url \<noteq> [] \<and> Path url = [Separator url]
               then Inl (FatalExit (Trace errInvalidArgument [])
                          (''Target `'' @ tgtURL @ ''` does not contain bucket name.''))
               else if String cliCtx (rdFlag e) \<noteq> [] \<and> String cliCtx (rmFlag e) = []
               then Inl (FatalExit (Trace errInvalidArgument []) (retentionFlagsMessage e))
               else if String cliCtx (rdFlag e) = [] \<and> String cliCtx (rmFlag e) \<noteq> []
               then Inl (FatalExit (Trace errInvalidArgument []) (retentionFlagsMessage e))
               else
                 let operation = (if isMvCmd then ''move'' else ''copy'');
                     (copyURLsType, err) = guessCopyURLType e srcURLs tgtURL isRecursive
                 in
                 if err \<noteq> None
                 then Inl (FatalExit (Trace errInvalidArgument [])
                            (''Unable to guess the type of '' @ operation @ '' operation.''))
                 else
                   (case checkCopySyntax_switch e copyURLsType srcURLs tgtURL isRecursive isMvCmd of
                      Inl ex \<Rightarrow> Inl ex
                    | Inr u' \<Rightarrow>
                        if Bool cliCtx ''preserve'' \<and> GOOS e = ''windows''
                        then Inl (FatalExit (Trace errInvalidArgument [])
                                   ''Permissions are not preserved on windows platform.'')
                        else Inr ())))"

section \<open>The classifier\<close>






section \<open>Outcomes up to wording\<close>

text \<open>
  What an exit is apart from its wording: the help page shown and the message of a fatal
  error are blanked, the exit code and the error (cause and trace) are kept.
\<close>

fun withoutWording :: "exit \<Rightarrow> exit" where
  "withoutWording (ShowCommandHelpAndExit command code) = ShowCommandHelpAndExit [] code"
| "withoutWording (FatalExit err msg) = FatalExit err []"
| "withoutWording (ConsoleFatalExit msg) = ConsoleFatalExit msg"

section \<open>Example requests\<close>

text \<open>
  Concrete collaborators for the examples: a stat function, a fixed answer of
  \<^verbatim>\<open>guessCopyURLType\<close>, no prefix found by \<^verbatim>\<open>isURLPrefixExists\<close>, and a
  \<^verbatim>\<open>newClientURL\<close> that reads every URL as a local path.
\<close>

definition exampleClient :: "string \<Rightarrow> Client" where
  "exampleClient url = \<lparr>GetURL = \<lparr>Host = [], Path = url, Separator = CHR ''/''\<rparr>\<rparr>"

definition statDir :: "string \<Rightarrow> probe_error + (Client \<times> ClientContent)" where
  "statDir url = Inr (exampleClient url, \<lparr>Type = \<lparr>IsDir = True, IsRegular = False\<rparr>\<rparr>)"

definition statFile :: "string \<Rightarrow> probe_error + (Client \<times> ClientContent)" where
  "statFile url = Inr (exampleClient url, \<lparr>Type = \<lparr>IsDir = False, IsRegular = True\<rparr>\<rparr>)"

definition statMissing :: "probe_error + (Client \<times> ClientContent)" where
  "statMissing = Inl (ProbeError (ExternalCause ''Object does not exist'') [])"

definition exampleEnv ::
  "(string \<Rightarrow> probe_error + (Client \<times> ClientContent)) \<Rightarrow> copyURLsType \<times> probe_error option \<Rightarrow> env" where
  "exampleEnv stat guess =
     \<lparr>url2Stat = stat,
      isURLPrefixExists = (\<lambda>url isIncomplete. False),
      newClientURL = (\<lambda>url. \<lparr>Host = [], Path = url, Separator = CHR ''/''\<rparr>),
      guessCopyURLType = (\<lambda>srcURLs tgtURL isRecursive. guess),
      rdFlag = ''retention-duration'',
      rmFlag = ''retention-mode'',
      GOOS = ''linux''\<rparr>"

definition exampleCtx :: "string list \<Rightarrow> bool \<Rightarrow> string \<Rightarrow> string \<Rightarrow> cliContext" where
  "exampleCtx args isRecursive rd rm =
     \<lparr>Args = args,
      Bool = (\<lambda>name. name = ''recursive'' \<and> isRecursive),
      String = (\<lambda>name. if name = ''retention-duration'' then rd
                         else if name = ''retention-mode'' then rm else [])\<rparr>"

text \<open>Only \<open>/data\<close> and \<open>/data/logs\<close> exist, as directories.\<close>

definition statTree :: "string \<Rightarrow> probe_error + (Client \<times> ClientContent)" where
  "statTree url = (if url = ''/data'' \<or> url = ''/data/logs'' then statDir url else statMissing)"

text \<open>
  As \<open>statTree\<close>, with the regular files \<open>/a.txt\<close>, \<open>/b.txt\<close>, \<open>/backup\<close> and
  \<open>/data/logs/archive\<close>.
\<close>

definition statTreeFiles :: "string \<Rightarrow> probe_error + (Client \<times> ClientContent)" where
  "statTreeFiles url =
     (if url = ''/a.txt'' \<or> url = ''/b.txt'' \<or> url = ''/backup''
         \<or> url = ''/data/logs/archive''
      then statFile url else statTree url)"

text \<open>The same collaborators, where \<open>https://play.min.io/\<close> is a host with the path \<open>/\<close>.\<close>

definition exampleEnvAlias ::
  "(string \<Rightarrow> probe_error + (Client \<times> ClientContent)) \<Rightarrow> copyURLsType \<times> probe_error option \<Rightarrow> env" where
  "exampleEnvAlias stat guess =
     (exampleEnv stat guess)
       \<lparr>newClientURL :=
          (\<lambda>url. if url = ''https://play.min.io/''
                 then \<lparr>Host = ''play.min.io'', Path = ''/'', Separator = CHR ''/''\<rparr>
                 else \<lparr>Host = [], Path = url, Separator = CHR ''/''\<rparr>)\<rparr>"

lemmas example_defs = exampleClient_def statDir_def statFile_def statMissing_def exampleEnv_def
  exampleCtx_def statTree_def statTreeFiles_def exampleEnvAlias_def

section \<open>Go's string predicates and the library's\<close>

lemma HasPrefix_prefix: "HasPrefix s pre \<longleftrightarrow> prefix pre s"
  unfolding HasPrefix_def
  by (metis append_eq_conv_conj prefix_def prefix_length_le take_is_prefix)

lemma HasSuffix_suffix: "HasSuffix s suf \<longleftrightarrow> suffix suf s"
  unfolding HasSuffix_def
  by (metis suffix_drop suffix_length_le suffix_def append_eq_conv_conj length_append
      add_diff_cancel_right')

section \<open>The containment predicate (C6)\<close>

text \<open>
  C6. The containment predicate normalizes both paths by ensuring a trailing separator
  (a path that ends with the separator is kept, any other gets the separator appended, so
  the result always ends with it) and is true exactly when the normalized descendant
  begins with the normalized ancestor. Hence every path contains itself,
  \<open>/a/b\<close> contains \<open>/a/b/c\<close>, and \<open>/a/bc\<close> does not contain \<open>/a/b\<close>.
\<close>

theorem isURLContains_spec:
  "isURLContains a d sep
     = prefix (ensureTrailingSeparator a sep) (ensureTrailingSeparator d sep)
   \<and> ensureTrailingSeparator p sep = (if suffix sep p then p else p @ sep)
   \<and> suffix sep (ensureTrailingSeparator p sep)
   \<and> isURLContains A A ''/''
   \<and> isURLContains ''/a/b'' ''/a/b/c'' ''/''
   \<and> \<not> isURLContains ''/a/bc'' ''/a/b'' ''/''"
proof -
  have 1: "isURLContains a d sep
     = prefix (ensureTrailingSeparator a sep) (ensureTrailingSeparator d sep)"
    by (simp add: isURLContains_def HasPrefix_prefix)
  have 2: "ensureTrailingSeparator p sep = (if suffix sep p then p else p @ sep)"
    by (simp add: ensureTrailingSeparator_def HasSuffix_suffix)
  have 3: "suffix sep (ensureTrailingSeparator p sep)"
    by (simp add: 2 suffix_def)
  have 4: "isURLContains A A ''/''"
    by (simp add: isURLContains_def HasPrefix_prefix)
  have 5: "isURLContains ''/a/b'' ''/a/b/c'' ''/''"
    by (simp add: isURLContains_def ensureTrailingSeparator_def HasSuffix_def HasPrefix_def)
  have 6: "\<not> isURLContains ''/a/bc'' ''/a/b'' ''/''"
    by (simp add: isURLContains_def ensureTrailingSeparator_def HasSuffix_def HasPrefix_def)
  from 1 2 3 4 5 6 show ?thesis by blast
qed

section \<open>The stages of \<^verbatim>\<open>checkCopySyntax\<close>\<close>

text \<open>
  The first loop passes exactly when every source stats; a source that does not stat ends
  the run there. Once the loop has passed, the remaining checks come in the order of the
  source: bucket name, retention flags, guessed type, the validator of that type, platform.
\<close>

lemma checkCopySyntax_sources_ok:
  "checkCopySyntax_sources e srcURLs = Inr () \<longleftrightarrow> (\<forall>s\<in>set srcURLs. \<exists>st. url2Stat e s = Inr st)"
  by (induction srcURLs) (auto split: sum.splits)

lemma checkCopySyntax_sources_fail:
  "s \<in> set srcURLs \<Longrightarrow> url2Stat e s = Inl err \<Longrightarrow>
     \<exists>s'\<in>set srcURLs. checkCopySyntax_sources e srcURLs
        = Inl (ConsoleFatalExit (''Unable to validate source '' @ s' @ [CHR 0x0A]))"
  by (induction srcURLs) (auto split: sum.splits)

lemma checkCopySyntax_stat_fatal:
  assumes "2 \<le> length (Args cliCtx)"
    and "checkCopySyntax_sources e (butlast (Args cliCtx)) = Inl ex"
  shows "checkCopySyntax e cliCtx mv = Inl ex"
  using assms by (simp add: checkCopySyntax_def Let_def)

lemma checkCopySyntax_after_sources:
  assumes "2 \<le> length (Args cliCtx)"
    and "checkCopySyntax_sources e (butlast (Args cliCtx)) = Inr ()"
  shows "checkCopySyntax e cliCtx mv =
    (let tgtURL = last (Args cliCtx); srcURLs = butlast (Args cliCtx);
         url = newClientURL e tgtURL in
     if Host url \<noteq> [] \<and> Path url = [Separator url]
     then Inl (FatalExit (Trace errInvalidArgument [])
                (''Target `'' @ tgtURL @ ''` does not contain bucket name.''))
     else if (String cliCtx (rdFlag e) = []) \<noteq> (String cliCtx (rmFlag e) = [])
     then Inl (FatalExit (Trace errInvalidArgument []) (retentionFlagsMessage e))
     else if snd (guessCopyURLType e srcURLs tgtURL (Bool cliCtx ''recursive'')) \<noteq> None
     then Inl (FatalExit (Trace errInvalidArgument [])
                (''Unable to guess the type of '' @ (if mv then ''move'' else ''copy'')
                   @ '' operation.''))
     else
       (case checkCopySyntax_switch e
               (fst (guessCopyURLType e srcURLs tgtURL (Bool cliCtx ''recursive'')))
               srcURLs tgtURL (Bool cliCtx ''recursive'') mv of
          Inl ex \<Rightarrow> Inl ex
        | Inr u \<Rightarrow>
            if Bool cliCtx ''preserve'' \<and> GOOS e = ''windows''
            then Inl (FatalExit (Trace errInvalidArgument [])
                       ''Permissions are not preserved on windows platform.'')
            else Inr ()))"
  using assms by (auto simp add: checkCopySyntax_def Let_def split: prod.splits)

section \<open>\<^verbatim>\<open>checkCopySyntaxTypeC\<close> on one source\<close>

lemma typeC_single:
  "checkCopySyntaxTypeC e [srcURL] tgtURL isRecursive mv =
     (case url2Stat e tgtURL of
        Inl err \<Rightarrow> checkCopySyntaxTypeC_sources e [srcURL] tgtURL isRecursive mv
      | Inr st \<Rightarrow>
          if \<not> IsDir (Type (snd st))
          then Inl (FatalExit (Trace errInvalidArgument [tgtURL])
                     (''Target `'' @ tgtURL @ ''` is not a folder.''))
          else checkCopySyntaxTypeC_sources e [srcURL] tgtURL isRecursive mv)"
  by (simp add: checkCopySyntaxTypeC_def split: sum.splits prod.splits)

lemma typeC_target_ok:
  assumes "\<forall>c tgtContent. url2Stat e tgtURL = Inr (c, tgtContent) \<longrightarrow> IsDir (Type tgtContent)"
  shows "checkCopySyntaxTypeC e [srcURL] tgtURL isRecursive mv
           = checkCopySyntaxTypeC_sources e [srcURL] tgtURL isRecursive mv"
  using assms by (auto simp add: typeC_single split: sum.splits)

section \<open>A source that does not stat (C1)\<close>

text \<open>
  C1, as stated, fails. The single source \<open>/missing\<close> does not stat and nothing exists
  under it as a prefix; the target \<open>/backup\<close> is missing. \<^verbatim>\<open>checkCopySyntaxTypeC\<close>
  does not accept: it exits with the stat error. The whole \<^verbatim>\<open>checkCopySyntax\<close>
  exits even earlier, in its first loop.
\<close>

theorem C1_counterexample:
  "checkCopySyntaxTypeC (exampleEnv statTree (copyURLsTypeC, None)) [''/missing''] ''/backup'' True False
     = Inl (FatalExit (ProbeError (ExternalCause ''Object does not exist'') [[''/missing'']])
             ''Unable to stat source `/missing`.'')
   \<and> checkCopySyntaxTypeC (exampleEnv statTree (copyURLsTypeC, None)) [''/missing''] ''/backup'' True False
     \<noteq> Inr ()
   \<and> checkCopySyntax (exampleEnv statTree (copyURLsTypeC, None))
       (exampleCtx [''/missing'', ''/backup''] True [] []) False
     = Inl (ConsoleFatalExit (''Unable to validate source /missing'' @ [CHR 0x0A]))"
  by (simp add: checkCopySyntaxTypeC_def checkCopySyntax_def example_defs)

text \<open>
  C1 (amended). Let the stat of a source fail. \<^verbatim>\<open>checkCopySyntaxTypeA\<close> and
  \<^verbatim>\<open>checkCopySyntaxTypeB\<close> exit with that error ("Unable to stat source").
  \<^verbatim>\<open>checkCopySyntaxTypeC\<close>, when the target is missing or a directory, skips the
  source and accepts only if \<^verbatim>\<open>isURLPrefixExists\<close> holds for it, and exits with the
  stat error otherwise. \<^verbatim>\<open>checkCopySyntax\<close> as a whole, whatever the shape, exits with
  "Unable to validate source" as soon as one of its sources does not stat.
\<close>

theorem source_stat_failure:
  assumes "url2Stat e srcURL = Inl err"
  shows "checkCopySyntaxTypeA e [srcURL] tgtURL mv
           = Inl (FatalExit (Trace err [srcURL]) (''Unable to stat source `'' @ srcURL @ ''`.''))
       \<and> checkCopySyntaxTypeB e [srcURL] tgtURL mv
           = Inl (FatalExit (Trace err [srcURL]) (''Unable to stat source `'' @ srcURL @ ''`.''))
       \<and> ((\<forall>c tgtContent. url2Stat e tgtURL = Inr (c, tgtContent) \<longrightarrow> IsDir (Type tgtContent))
            \<longrightarrow> checkCopySyntaxTypeC e [srcURL] tgtURL isRecursive mv
                 = (if isURLPrefixExists e srcURL False then Inr ()
                    else Inl (FatalExit (Trace err [srcURL])
                               (''Unable to stat source `'' @ srcURL @ ''`.''))))
       \<and> (2 \<le> length (Args cliCtx) \<and> srcURL \<in> set (butlast (Args cliCtx))
            \<longrightarrow> (\<exists>s\<in>set (butlast (Args cliCtx)).
                   checkCopySyntax e cliCtx mv
                     = Inl (ConsoleFatalExit (''Unable to validate source '' @ s @ [CHR 0x0A]))))"
proof -
  have a: "checkCopySyntaxTypeA e [srcURL] tgtURL mv
           = Inl (FatalExit (Trace err [srcURL]) (''Unable to stat source `'' @ srcURL @ ''`.''))"
    using assms by (simp add: checkCopySyntaxTypeA_def)
  have b: "checkCopySyntaxTypeB e [srcURL] tgtURL mv
           = Inl (FatalExit (Trace err [srcURL]) (''Unable to stat source `'' @ srcURL @ ''`.''))"
    using assms by (simp add: checkCopySyntaxTypeB_def)
  have c: "checkCopySyntaxTypeC e [srcURL] tgtURL isRecursive mv
                 = (if isURLPrefixExists e srcURL False then Inr ()
                    else Inl (FatalExit (Trace err [srcURL])
                               (''Unable to stat source `'' @ srcURL @ ''`.'')))"
    if "\<forall>c tgtContent. url2Stat e tgtURL = Inr (c, tgtContent) \<longrightarrow> IsDir (Type tgtContent)"
    using assms by (simp add: typeC_target_ok [OF that])
  have d: "\<exists>s\<in>set (butlast (Args cliCtx)).
                   checkCopySyntax e cliCtx mv
                     = Inl (ConsoleFatalExit (''Unable to validate source '' @ s @ [CHR 0x0A]))"
    if "2 \<le> length (Args cliCtx)" "srcURL \<in> set (butlast (Args cliCtx))"
  proof -
    from checkCopySyntax_sources_fail [OF that(2) assms]
    obtain s where "s \<in> set (butlast (Args cliCtx))"
      and "checkCopySyntax_sources e (butlast (Args cliCtx))
        = Inl (ConsoleFatalExit (''Unable to validate source '' @ s @ [CHR 0x0A]))"
      by blast
    with checkCopySyntax_stat_fatal [OF that(1)] show ?thesis by blast
  qed
  from a b c d show ?thesis by blast
qed

text \<open>
  The theorem at \<open>/missing\<close> (no prefix: rejected) and at \<open>/data/new\<close> (a prefix exists:
  skipped and accepted).
\<close>

theorem source_stat_failure_witness:
  "checkCopySyntaxTypeA (exampleEnv statTree (copyURLsTypeA, None)) [''/missing''] ''/backup'' False
     = Inl (FatalExit (ProbeError (ExternalCause ''Object does not exist'') [[''/missing'']])
             ''Unable to stat source `/missing`.'')
   \<and> checkCopySyntaxTypeC
        ((exampleEnv statTree (copyURLsTypeC, None))\<lparr>isURLPrefixExists := (\<lambda>url isIncomplete. url = ''/data/new'')\<rparr>)
        [''/data/new''] ''/backup'' True False = Inr ()
   \<and> checkCopySyntax (exampleEnv statTree (copyURLsTypeC, None))
        (exampleCtx [''/missing'', ''/backup''] True [] []) False
     = Inl (ConsoleFatalExit (''Unable to validate source /missing'' @ [CHR 0x0A]))"
proof -
  have m: "url2Stat (exampleEnv statTree (copyURLsTypeA, None)) ''/missing'' = statMissing"
    by (simp add: example_defs)
  have m': "url2Stat ((exampleEnv statTree (copyURLsTypeC, None))\<lparr>isURLPrefixExists := (\<lambda>url isIncomplete. url = ''/data/new'')\<rparr>) ''/data/new'' = statMissing"
    by (simp add: example_defs)
  have m'': "url2Stat (exampleEnv statTree (copyURLsTypeC, None)) ''/missing'' = statMissing"
    by (simp add: example_defs)
  note A = source_stat_failure [where tgtURL = "''/backup''" and mv = False,
      OF m [unfolded statMissing_def]]
  note C = source_stat_failure [where tgtURL = "''/backup''" and mv = False
      and isRecursive = True, OF m' [unfolded statMissing_def]]
  note S = source_stat_failure [where mv = False
      and cliCtx = "exampleCtx [''/missing'', ''/backup''] True [] []",
      OF m'' [unfolded statMissing_def]]
  show ?thesis
    using A C S by (simp add: example_defs)
qed

section \<open>A directory source in \<^verbatim>\<open>checkCopySyntaxTypeC\<close> (C4, C5)\<close>

lemma typeC_sources_dir:
  assumes "url2Stat e srcURL = Inr (c, srcContent)" and "IsDir (Type srcContent)"
  shows "checkCopySyntaxTypeC_sources e [srcURL] tgtURL isRecursive mv =
     (if \<not> isRecursive
      then Inl (FatalExit (Trace errInvalidArgument [srcURL])
                 (''To '' @ (if mv then ''move'' else ''copy'')
                    @ '' a folder requires --recursive flag.''))
      else if isURLContains srcURL tgtURL [Separator (GetURL c)]
      then Inl (FatalExit (Trace errInvalidArgument [])
                 ((if mv then ''Moving'' else ''Copying'')
                    @ '' a folder into itself is not allowed.''))
      else Inr ())"
  using assms by simp

text \<open>
  C4, as stated, fails. The source \<open>/data/logs\<close> is a directory, the recursive flag is
  set and the source contains the target \<open>/data/logs/archive\<close>, but the target exists as
  a regular file: the target check comes first and the exit is "is not a folder", not
  "a folder into itself".
\<close>

theorem C4_counterexample:
  "checkCopySyntaxTypeC (exampleEnv statTreeFiles (copyURLsTypeC, None))
       [''/data/logs''] ''/data/logs/archive'' True False
     = Inl (FatalExit (ProbeError InvalidArgumentCause [[''/data/logs/archive'']])
             ''Target `/data/logs/archive` is not a folder.'')
   \<and> isURLContains ''/data/logs'' ''/data/logs/archive'' ''/''
   \<and> checkCopySyntaxTypeC (exampleEnv statTreeFiles (copyURLsTypeC, None))
       [''/data/logs''] ''/data/logs/archive'' True False
     \<noteq> Inl (FatalExit (ProbeError InvalidArgumentCause [[]])
             ''Copying a folder into itself is not allowed.'')
   \<and> checkCopySyntax (exampleEnv statTreeFiles (copyURLsTypeC, None))
       (exampleCtx [''/data/logs'', ''/data/logs/archive''] True [] []) False
     = Inl (FatalExit (ProbeError InvalidArgumentCause [[''/data/logs/archive'']])
             ''Target `/data/logs/archive` is not a folder.'')"
  by (simp add: checkCopySyntaxTypeC_def checkCopySyntax_def checkCopySyntax_switch_def
      example_defs errInvalidArgument_def
      isURLContains_def ensureTrailingSeparator_def HasSuffix_def HasPrefix_def)

text \<open>
  C4 (amended). For a single source that exists and is a directory, with the recursive
  flag set and a target that is missing or a directory: \<^verbatim>\<open>checkCopySyntaxTypeC\<close>
  exits with "Copying (Moving) a folder into itself is not allowed." if the source contains
  the target under the containment predicate, with the separator of the source's client,
  and accepts otherwise.
\<close>

theorem self_containment:
  assumes "url2Stat e srcURL = Inr (c, srcContent)" and "IsDir (Type srcContent)"
    and "isRecursive"
    and "\<forall>c' tgtContent. url2Stat e tgtURL = Inr (c', tgtContent) \<longrightarrow> IsDir (Type tgtContent)"
  shows "checkCopySyntaxTypeC e [srcURL] tgtURL isRecursive mv =
     (if isURLContains srcURL tgtURL [Separator (GetURL c)]
      then Inl (FatalExit (Trace errInvalidArgument [])
                 ((if mv then ''Moving'' else ''Copying'')
                    @ '' a folder into itself is not allowed.''))
      else Inr ())"
  using assms(3)
  by (simp add: typeC_target_ok [OF assms(4)] typeC_sources_dir [OF assms(1,2)]
      del: checkCopySyntaxTypeC_sources.simps)

text \<open>The spec's example \<open>/data/logs\<close> into \<open>/data/logs/archive\<close>, and \<open>/data/logs\<close> into \<open>/backup\<close>.\<close>

theorem self_containment_witness:
  "checkCopySyntaxTypeC (exampleEnv statTree (copyURLsTypeC, None))
       [''/data/logs''] ''/data/logs/archive'' True False
     = Inl (FatalExit (ProbeError InvalidArgumentCause [[]])
             ''Copying a folder into itself is not allowed.'')
   \<and> checkCopySyntaxTypeC (exampleEnv statTree (copyURLsTypeC, None))
       [''/data/logs''] ''/backup'' True True
     = Inr ()"
proof -
  let ?e = "exampleEnv statTree (copyURLsTypeC, None)"
  have s: "url2Stat ?e ''/data/logs''
             = Inr (exampleClient ''/data/logs'', \<lparr>Type = \<lparr>IsDir = True, IsRegular = False\<rparr>\<rparr>)"
    by (simp add: example_defs)
  have d: "IsDir (Type \<lparr>Type = \<lparr>IsDir = True, IsRegular = False\<rparr>\<rparr>)"
    by simp
  have t1: "\<forall>c' tgtContent. url2Stat ?e ''/data/logs/archive'' = Inr (c', tgtContent)
              \<longrightarrow> IsDir (Type tgtContent)"
    by (simp add: example_defs)
  have t2: "\<forall>c' tgtContent. url2Stat ?e ''/backup'' = Inr (c', tgtContent)
              \<longrightarrow> IsDir (Type tgtContent)"
    by (simp add: example_defs)
  show ?thesis
    using self_containment [OF s d TrueI t1, where mv = False]
      self_containment [OF s d TrueI t2, where mv = True]
    by (simp add: exampleClient_def errInvalidArgument_def
        isURLContains_def ensureTrailingSeparator_def HasSuffix_def HasPrefix_def)
qed

text \<open>
  C5, as stated, fails. The source \<open>/data\<close> is a directory and the recursive flag is not
  set, but the target \<open>/backup\<close> exists as a regular file: the exit is "is not a folder",
  not the recursive-flag error.
\<close>

theorem C5_counterexample:
  "checkCopySyntaxTypeC (exampleEnv statTreeFiles (copyURLsTypeC, None))
       [''/data''] ''/backup'' False False
     = Inl (FatalExit (ProbeError InvalidArgumentCause [[''/backup'']])
             ''Target `/backup` is not a folder.'')
   \<and> checkCopySyntaxTypeC (exampleEnv statTreeFiles (copyURLsTypeC, None))
       [''/data''] ''/backup'' False False
     \<noteq> Inl (FatalExit (ProbeError InvalidArgumentCause [[''/data'']])
             ''To copy a folder requires --recursive flag.'')
   \<and> checkCopySyntax (exampleEnv statTreeFiles (copyURLsTypeC, None))
       (exampleCtx [''/data'', ''/backup''] False [] []) False
     = Inl (FatalExit (ProbeError InvalidArgumentCause [[''/backup'']])
             ''Target `/backup` is not a folder.'')"
  by (simp add: checkCopySyntaxTypeC_def checkCopySyntax_def checkCopySyntax_switch_def
      example_defs errInvalidArgument_def)

text \<open>
  C5 (amended). For a single source that exists and is a directory, and a target that is
  missing or a directory: without the recursive flag \<^verbatim>\<open>checkCopySyntaxTypeC\<close> exits with
  "To copy (move) a folder requires --recursive flag."; with the flag set, a missing target
  and no containment, it accepts.
\<close>

theorem recursive_required:
  assumes "url2Stat e srcURL = Inr (c, srcContent)" and "IsDir (Type srcContent)"
    and "\<forall>c' tgtContent. url2Stat e tgtURL = Inr (c', tgtContent) \<longrightarrow> IsDir (Type tgtContent)"
  shows "(\<not> isRecursive \<longrightarrow>
            checkCopySyntaxTypeC e [srcURL] tgtURL isRecursive mv
              = Inl (FatalExit (Trace errInvalidArgument [srcURL])
                      (''To '' @ (if mv then ''move'' else ''copy'')
                         @ '' a folder requires --recursive flag.'')))
       \<and> (isRecursive \<and> url2Stat e tgtURL = Inl err
            \<and> \<not> isURLContains srcURL tgtURL [Separator (GetURL c)] \<longrightarrow>
            checkCopySyntaxTypeC e [srcURL] tgtURL isRecursive mv = Inr ())"
  by (simp add: typeC_target_ok [OF assms(3)] typeC_sources_dir [OF assms(1,2)]
      del: checkCopySyntaxTypeC_sources.simps)

text \<open>The spec's example: \<open>/data\<close> into the missing \<open>/backup\<close>, without and with the flag.\<close>

theorem recursive_required_witness:
  "checkCopySyntaxTypeC (exampleEnv statTree (copyURLsTypeC, None))
       [''/data''] ''/backup'' False False
     = Inl (FatalExit (ProbeError InvalidArgumentCause [[''/data'']])
             ''To copy a folder requires --recursive flag.'')
   \<and> checkCopySyntaxTypeC (exampleEnv statTree (copyURLsTypeC, None))
       [''/data''] ''/backup'' True False
     = Inr ()"
proof -
  let ?e = "exampleEnv statTree (copyURLsTypeC, None)"
  have s: "url2Stat ?e ''/data''
             = Inr (exampleClient ''/data'', \<lparr>Type = \<lparr>IsDir = True, IsRegular = False\<rparr>\<rparr>)"
    by (simp add: example_defs)
  have d: "IsDir (Type \<lparr>Type = \<lparr>IsDir = True, IsRegular = False\<rparr>\<rparr>)"
    by simp
  have t: "\<forall>c' tgtContent. url2Stat ?e ''/backup'' = Inr (c', tgtContent)
              \<longrightarrow> IsDir (Type tgtContent)"
    by (simp add: example_defs)
  have m: "url2Stat ?e ''/backup'' = Inl (ProbeError (ExternalCause ''Object does not exist'') [])"
    by (simp add: example_defs)
  show ?thesis
    using recursive_required [OF s d t, where isRecursive = False and mv = False]
      recursive_required [OF s d t, where isRecursive = True and mv = False] m
    by (simp add: exampleClient_def errInvalidArgument_def
        isURLContains_def ensureTrailingSeparator_def HasSuffix_def HasPrefix_def)
qed

section \<open>Many sources (C2)\<close>

text \<open>
  C2, as stated, fails. Of the two sources, \<open>/data\<close> is a directory that contains the
  target \<open>/data/logs\<close>, and the recursive flag is not set. \<^verbatim>\<open>checkCopySyntaxTypeD\<close>
  accepts, and so does the whole \<^verbatim>\<open>checkCopySyntax\<close>; the per-source rule of
  \<^verbatim>\<open>checkCopySyntaxTypeC\<close> rejects the same source, without the flag and with it.
\<close>

theorem C2_counterexample:
  "checkCopySyntaxTypeD (exampleEnv statTreeFiles (copyURLsTypeD, None))
       [''/data'', ''/b.txt''] ''/data/logs'' False
     = Inr ()
   \<and> checkCopySyntax (exampleEnv statTreeFiles (copyURLsTypeD, None))
       (exampleCtx [''/data'', ''/b.txt'', ''/data/logs''] False [] []) False
     = Inr ()
   \<and> checkCopySyntaxTypeC_sources (exampleEnv statTreeFiles (copyURLsTypeD, None))
       [''/data''] ''/data/logs'' False False
     = Inl (FatalExit (ProbeError InvalidArgumentCause [[''/data'']])
             ''To copy a folder requires --recursive flag.'')
   \<and> checkCopySyntaxTypeC_sources (exampleEnv statTreeFiles (copyURLsTypeD, None))
       [''/data''] ''/data/logs'' True False
     = Inl (FatalExit (ProbeError InvalidArgumentCause [[]])
             ''Copying a folder into itself is not allowed.'')"
  by (simp add: checkCopySyntaxTypeD_def checkCopySyntax_def checkCopySyntax_switch_def
      example_defs errInvalidArgument_def
      isURLContains_def ensureTrailingSeparator_def HasSuffix_def HasPrefix_def)

text \<open>
  C2 (amended). In the ManyToFolder shape only the target is checked: if the target is
  missing or a directory, \<^verbatim>\<open>checkCopySyntaxTypeD\<close> accepts whatever the sources are,
  and \<^verbatim>\<open>checkCopySyntax\<close> accepts a request guessed as this shape once its sources stat,
  the target names a bucket, the retention flags are paired and the platform rule does not
  apply, whatever the kinds of the sources and the recursive flag.
\<close>

theorem many_to_folder_target_only:
  assumes "\<forall>c tgtContent. url2Stat e tgtURL = Inr (c, tgtContent) \<longrightarrow> IsDir (Type tgtContent)"
  shows "checkCopySyntaxTypeD e srcURLs tgtURL mv = Inr ()
       \<and> (2 \<le> length (Args cliCtx) \<and> tgtURL = last (Args cliCtx)
            \<and> (\<forall>s\<in>set (butlast (Args cliCtx)). \<exists>st. url2Stat e s = Inr st)
            \<and> \<not> (Host (newClientURL e tgtURL) \<noteq> []
                  \<and> Path (newClientURL e tgtURL) = [Separator (newClientURL e tgtURL)])
            \<and> (String cliCtx (rdFlag e) = []) = (String cliCtx (rmFlag e) = [])
            \<and> guessCopyURLType e (butlast (Args cliCtx)) tgtURL (Bool cliCtx ''recursive'')
                 = (copyURLsTypeD, None)
            \<and> \<not> (Bool cliCtx ''preserve'' \<and> GOOS e = ''windows'')
            \<longrightarrow> checkCopySyntax e cliCtx mv = Inr ())"
proof -
  have d: "checkCopySyntaxTypeD e srcs tgtURL mv = Inr ()" for srcs
    using assms by (auto simp add: checkCopySyntaxTypeD_def split: sum.splits)
  have "checkCopySyntax e cliCtx mv = Inr ()"
    if "2 \<le> length (Args cliCtx)" "tgtURL = last (Args cliCtx)"
      "\<forall>s\<in>set (butlast (Args cliCtx)). \<exists>st. url2Stat e s = Inr st"
      "\<not> (Host (newClientURL e tgtURL) \<noteq> []
                  \<and> Path (newClientURL e tgtURL) = [Separator (newClientURL e tgtURL)])"
      "(String cliCtx (rdFlag e) = []) = (String cliCtx (rmFlag e) = [])"
      "guessCopyURLType e (butlast (Args cliCtx)) tgtURL (Bool cliCtx ''recursive'')
                 = (copyURLsTypeD, None)"
      "\<not> (Bool cliCtx ''preserve'' \<and> GOOS e = ''windows'')"
  proof -
    have s: "checkCopySyntax_sources e (butlast (Args cliCtx)) = Inr ()"
      using that(3) by (simp add: checkCopySyntax_sources_ok)
    show ?thesis
      using that(2,4,5,6,7) d
      by (simp add: checkCopySyntax_after_sources [OF that(1) s] Let_def
          checkCopySyntax_switch_def)
  qed
  with d show ?thesis by blast
qed

text \<open>The request of the counterexample, as a copy and as a move.\<close>

theorem many_to_folder_target_only_witness:
  "checkCopySyntaxTypeD (exampleEnv statTreeFiles (copyURLsTypeD, None))
       [''/data'', ''/b.txt''] ''/data/logs'' False
     = Inr ()
   \<and> checkCopySyntax (exampleEnv statTreeFiles (copyURLsTypeD, None))
       (exampleCtx [''/data'', ''/b.txt'', ''/data/logs''] False [] []) True
     = Inr ()"
proof -
  let ?e = "exampleEnv statTreeFiles (copyURLsTypeD, None)"
  have t: "\<forall>c tgtContent. url2Stat ?e ''/data/logs'' = Inr (c, tgtContent)
              \<longrightarrow> IsDir (Type tgtContent)"
    by (simp add: example_defs)
  show ?thesis
    using many_to_folder_target_only [OF t, where srcURLs = "[''/data'', ''/b.txt'']"
        and mv = False
        and cliCtx = "exampleCtx [''/data'', ''/b.txt'', ''/data/logs''] False [] []"]
      many_to_folder_target_only [OF t, where mv = True
        and cliCtx = "exampleCtx [''/data'', ''/b.txt'', ''/data/logs''] False [] []"]
    by (simp add: example_defs)
qed

section \<open>Move and copy (C9)\<close>

lemma wording_typeC_sources:
  "map_sum withoutWording id (checkCopySyntaxTypeC_sources e srcURLs tgtURL isRecursive True)
     = map_sum withoutWording id (checkCopySyntaxTypeC_sources e srcURLs tgtURL isRecursive False)"
  by (induction srcURLs) (auto split: sum.splits)

lemma wording_switch:
  "map_sum withoutWording id (checkCopySyntax_switch e t srcURLs tgtURL isRecursive True)
     = map_sum withoutWording id (checkCopySyntax_switch e t srcURLs tgtURL isRecursive False)"
proof (cases t)
  case copyURLsTypeC
  then show ?thesis
    by (simp add: checkCopySyntax_switch_def checkCopySyntaxTypeC_def wording_typeC_sources
        split: sum.splits del: checkCopySyntaxTypeC_sources.simps)
qed (simp_all add: checkCopySyntax_switch_def checkCopySyntaxTypeA_def
      checkCopySyntaxTypeB_def checkCopySyntaxTypeD_def)

lemma map_sum_eq_cases:
  "map_sum f id a = map_sum f id b \<Longrightarrow>
     map_sum f id (case a of Inl ex \<Rightarrow> Inl ex | Inr u \<Rightarrow> c)
       = map_sum f id (case b of Inl ex \<Rightarrow> Inl ex | Inr u \<Rightarrow> c)"
  by (cases a; cases b) auto

text \<open>
  C9. For the same arguments, flags and collaborators, \<^verbatim>\<open>checkCopySyntax\<close> as a move
  and as a copy end the same way up to wording: both accept, or both exit in the same way
  with the same exit code or the same error, and only the help page and the message may
  differ. The same holds of \<^verbatim>\<open>checkCopySyntaxTypeC\<close>, the one validator that reads
  the flag.
\<close>

theorem move_changes_only_wording:
  "map_sum withoutWording id (checkCopySyntax e cliCtx True)
     = map_sum withoutWording id (checkCopySyntax e cliCtx False)
   \<and> (checkCopySyntax e cliCtx True = Inr ()) = (checkCopySyntax e cliCtx False = Inr ())
   \<and> map_sum withoutWording id (checkCopySyntaxTypeC e srcURLs tgtURL isRecursive True)
     = map_sum withoutWording id (checkCopySyntaxTypeC e srcURLs tgtURL isRecursive False)"
proof -
  have c: "map_sum withoutWording id (checkCopySyntaxTypeC e srcURLs tgtURL isRecursive True)
     = map_sum withoutWording id (checkCopySyntaxTypeC e srcURLs tgtURL isRecursive False)"
    using wording_switch [of e copyURLsTypeC srcURLs tgtURL isRecursive]
    by (simp add: checkCopySyntax_switch_def)
  have eq: "map_sum withoutWording id (checkCopySyntax e cliCtx True)
     = map_sum withoutWording id (checkCopySyntax e cliCtx False)"
  proof (cases "2 \<le> length (Args cliCtx)")
    case False
    then show ?thesis by (simp add: checkCopySyntax_def)
  next
    case len: True
    show ?thesis
    proof (cases "checkCopySyntax_sources e (butlast (Args cliCtx))")
      case (Inl ex)
      then show ?thesis by (simp add: checkCopySyntax_stat_fatal [OF len])
    next
      case (Inr u)
      then have s: "checkCopySyntax_sources e (butlast (Args cliCtx)) = Inr ()" by simp
      show ?thesis
        by (simp add: checkCopySyntax_after_sources [OF len s] Let_def
            map_sum_eq_cases [OF wording_switch])
    qed
  qed
  have "(a = Inr ()) = (b = Inr ())"
    if "map_sum withoutWording id a = map_sum withoutWording id b" for a b :: "unit result"
    using that by (cases a; cases b) auto
  from this [OF eq] eq c show ?thesis by blast
qed

section \<open>Messages of the validators\<close>

text \<open>No validator exits with the retention message or with the "Unable to guess" message.\<close>

lemma typeC_sources_not_retention:
  "checkCopySyntaxTypeC_sources e srcURLs tgtURL isRecursive mv
     \<noteq> Inl (FatalExit x (''Both object retention flags `--'' @ y))"
  by (induction srcURLs) (auto split: sum.splits)

lemma switch_not_retention:
  "checkCopySyntax_switch e t srcURLs tgtURL isRecursive mv
     \<noteq> Inl (FatalExit x (''Both object retention flags `--'' @ y))"
proof (cases t)
  case copyURLsTypeC
  then show ?thesis
    using typeC_sources_not_retention [of e srcURLs tgtURL isRecursive mv x y]
    by (simp add: checkCopySyntax_switch_def checkCopySyntaxTypeC_def
        split: sum.splits del: checkCopySyntaxTypeC_sources.simps)
qed (auto simp add: checkCopySyntax_switch_def checkCopySyntaxTypeA_def
      checkCopySyntaxTypeB_def checkCopySyntaxTypeD_def Let_def
      split: sum.splits prod.splits if_splits)



section \<open>A target without a bucket name (C10)\<close>

text \<open>
  C10, as stated, fails. The target \<open>https://play.min.io/\<close> has a host and the path
  \<open>/\<close>, but the source \<open>/missing\<close> does not stat: the first loop of
  \<^verbatim>\<open>checkCopySyntax\<close> exits with "Unable to validate source" before the bucket check.
\<close>

theorem C10_counterexample:
  "checkCopySyntax (exampleEnvAlias statTree (copyURLsTypeC, None))
       (exampleCtx [''/missing'', ''https://play.min.io/''] True [] []) False
     = Inl (ConsoleFatalExit (''Unable to validate source /missing'' @ [CHR 0x0A]))
   \<and> Host (newClientURL (exampleEnvAlias statTree (copyURLsTypeC, None)) ''https://play.min.io/'')
     = ''play.min.io''
   \<and> Path (newClientURL (exampleEnvAlias statTree (copyURLsTypeC, None)) ''https://play.min.io/'')
     = [Separator (newClientURL (exampleEnvAlias statTree (copyURLsTypeC, None))
                     ''https://play.min.io/'')]
   \<and> checkCopySyntax (exampleEnvAlias statTree (copyURLsTypeC, None))
       (exampleCtx [''/missing'', ''https://play.min.io/''] True [] []) False
     \<noteq> Inl (FatalExit (ProbeError InvalidArgumentCause [[]])
             ''Target `https://play.min.io/` does not contain bucket name.'')"
  by (simp add: checkCopySyntax_def example_defs)

text \<open>
  C10 (amended). For every request with at least one source, all of whose sources stat,
  and whose target URL has a non-empty host and the separator as its path:
  \<^verbatim>\<open>checkCopySyntax\<close> exits with the invalid-argument error "Target ... does not contain
  bucket name.", whatever the flags and whatever \<^verbatim>\<open>guessCopyURLType\<close> would answer.
\<close>

theorem target_without_bucket:
  assumes "2 \<le> length (Args cliCtx)"
    and "\<forall>s\<in>set (butlast (Args cliCtx)). \<exists>st. url2Stat e s = Inr st"
    and "Host (newClientURL e (last (Args cliCtx))) \<noteq> []"
    and "Path (newClientURL e (last (Args cliCtx)))
           = [Separator (newClientURL e (last (Args cliCtx)))]"
  shows "checkCopySyntax e cliCtx mv
           = Inl (FatalExit (Trace errInvalidArgument [])
                   (''Target `'' @ last (Args cliCtx) @ ''` does not contain bucket name.''))"
proof -
  have s: "checkCopySyntax_sources e (butlast (Args cliCtx)) = Inr ()"
    using assms(2) by (simp add: checkCopySyntax_sources_ok)
  show ?thesis
    using assms(3,4) by (simp add: checkCopySyntax_after_sources [OF assms(1) s] Let_def)
qed

text \<open>A move of the directory \<open>/data\<close> to the host, with an unpaired retention flag.\<close>

theorem target_without_bucket_witness:
  "checkCopySyntax (exampleEnvAlias statTree (copyURLsTypeC, None))
       (exampleCtx [''/data'', ''https://play.min.io/''] False [] ''COMPLIANCE'') True
     = Inl (FatalExit (ProbeError InvalidArgumentCause [[]])
             ''Target `https://play.min.io/` does not contain bucket name.'')"
proof -
  let ?e = "exampleEnvAlias statTree (copyURLsTypeC, None)"
  let ?c = "exampleCtx [''/data'', ''https://play.min.io/''] False [] ''COMPLIANCE''"
  have 1: "2 \<le> length (Args ?c)"
    by (simp add: example_defs)
  have 2: "\<forall>s\<in>set (butlast (Args ?c)). \<exists>st. url2Stat ?e s = Inr st"
    by (simp add: example_defs)
  have 3: "Host (newClientURL ?e (last (Args ?c))) \<noteq> []"
    by (simp add: example_defs)
  have 4: "Path (newClientURL ?e (last (Args ?c))) = [Separator (newClientURL ?e (last (Args ?c)))]"
    by (simp add: example_defs)
  show ?thesis
    using target_without_bucket [OF 1 2 3 4, of True]
    by (simp add: example_defs errInvalidArgument_def)
qed

section \<open>The retention flags (C7)\<close>

text \<open>
  C7, as stated, fails. Only the retention mode is set, but the target has a host and no
  bucket name: the exit is the bucket error, which is checked before the retention flags.
\<close>

theorem C7_counterexample:
  "checkCopySyntax (exampleEnvAlias statTree (copyURLsTypeC, None))
       (exampleCtx [''/data'', ''https://play.min.io/''] True [] ''COMPLIANCE'') False
     = Inl (FatalExit (ProbeError InvalidArgumentCause [[]])
             ''Target `https://play.min.io/` does not contain bucket name.'')
   \<and> String (exampleCtx [''/data'', ''https://play.min.io/''] True [] ''COMPLIANCE'')
        (rmFlag (exampleEnvAlias statTree (copyURLsTypeC, None))) = ''COMPLIANCE''
   \<and> String (exampleCtx [''/data'', ''https://play.min.io/''] True [] ''COMPLIANCE'')
        (rdFlag (exampleEnvAlias statTree (copyURLsTypeC, None))) = []
   \<and> checkCopySyntax (exampleEnvAlias statTree (copyURLsTypeC, None))
       (exampleCtx [''/data'', ''https://play.min.io/''] True [] ''COMPLIANCE'') False
     \<noteq> Inl (FatalExit (ProbeError InvalidArgumentCause [[]])
             (retentionFlagsMessage (exampleEnvAlias statTree (copyURLsTypeC, None))))"
  by (simp add: checkCopySyntax_def example_defs errInvalidArgument_def retentionFlagsMessage_def)

text \<open>
  C7 (amended). For every request with at least one source, all of whose sources stat,
  and whose target is not a host without a bucket name, whatever the shape: if exactly
  one of the two retention flags is set, \<^verbatim>\<open>checkCopySyntax\<close> exits with the
  invalid-argument error "Both object retention flags ... are required."; if both or
  neither are set, it does not exit with that error.
\<close>

theorem retention_pair:
  assumes "2 \<le> length (Args cliCtx)"
    and "\<forall>s\<in>set (butlast (Args cliCtx)). \<exists>st. url2Stat e s = Inr st"
    and "\<not> (Host (newClientURL e (last (Args cliCtx))) \<noteq> []
            \<and> Path (newClientURL e (last (Args cliCtx)))
                = [Separator (newClientURL e (last (Args cliCtx)))])"
  shows "((String cliCtx (rdFlag e) = []) \<noteq> (String cliCtx (rmFlag e) = []) \<longrightarrow>
            checkCopySyntax e cliCtx mv
              = Inl (FatalExit (Trace errInvalidArgument []) (retentionFlagsMessage e)))
       \<and> ((String cliCtx (rdFlag e) = []) = (String cliCtx (rmFlag e) = []) \<longrightarrow>
            checkCopySyntax e cliCtx mv
              \<noteq> Inl (FatalExit (Trace errInvalidArgument []) (retentionFlagsMessage e)))"
proof -
  have s: "checkCopySyntax_sources e (butlast (Args cliCtx)) = Inr ()"
    using assms(2) by (simp add: checkCopySyntax_sources_ok)
  have n: "(case checkCopySyntax_switch e t srcURLs tgtURL isRecursive mv of
              Inl ex \<Rightarrow> Inl ex
            | Inr u \<Rightarrow> if p then Inl (FatalExit (Trace errInvalidArgument [])
                       ''Permissions are not preserved on windows platform.'') else Inr ())
           \<noteq> Inl (FatalExit (Trace errInvalidArgument []) (retentionFlagsMessage e))"
    for t srcURLs tgtURL isRecursive p
    using switch_not_retention [of e t srcURLs tgtURL isRecursive mv]
    by (auto simp add: retentionFlagsMessage_def split: sum.splits)
  show ?thesis
    using assms(3) n
    by (auto simp add: checkCopySyntax_after_sources [OF assms(1) s] Let_def
        retentionFlagsMessage_def)
qed

text \<open>Mode \<open>COMPLIANCE\<close> without a duration, and with the duration \<open>30d\<close>.\<close>

theorem retention_pair_witness:
  "checkCopySyntax (exampleEnv statTree (copyURLsTypeC, None))
       (exampleCtx [''/data'', ''/backup''] True [] ''COMPLIANCE'') False
     = Inl (FatalExit (ProbeError InvalidArgumentCause [[]])
             (''Both object retention flags `--retention-duration` and `--retention-mode` are required.''
                @ [CHR 0x0A]))
   \<and> checkCopySyntax (exampleEnv statTree (copyURLsTypeC, None))
       (exampleCtx [''/data'', ''/backup''] True ''30d'' ''COMPLIANCE'') False
     \<noteq> Inl (FatalExit (ProbeError InvalidArgumentCause [[]])
             (''Both object retention flags `--retention-duration` and `--retention-mode` are required.''
                @ [CHR 0x0A]))"
proof -
  let ?e = "exampleEnv statTree (copyURLsTypeC, None)"
  let ?c = "\<lambda>rd. exampleCtx [''/data'', ''/backup''] True rd ''COMPLIANCE''"
  have 1: "2 \<le> length (Args (?c rd))" for rd
    by (simp add: example_defs)
  have 2: "\<forall>s\<in>set (butlast (Args (?c rd))). \<exists>st. url2Stat ?e s = Inr st" for rd
    by (simp add: example_defs)
  have 3: "\<not> (Host (newClientURL ?e (last (Args (?c rd)))) \<noteq> []
            \<and> Path (newClientURL ?e (last (Args (?c rd))))
                = [Separator (newClientURL ?e (last (Args (?c rd))))])" for rd
    by (simp add: example_defs)
  show ?thesis
    using retention_pair [OF 1 2 3, of "[]" False] retention_pair [OF 1 2 3, of "''30d''" False]
    by (simp add: example_defs errInvalidArgument_def retentionFlagsMessage_def)
qed

section \<open>The target check (C8)\<close>

lemma typeC_sources_not_target:
  "checkCopySyntaxTypeC_sources e srcURLs tgtURL isRecursive mv
     \<noteq> Inl (FatalExit x (''Target `'' @ y))"
  by (induction srcURLs) (auto split: sum.splits)

text \<open>
  C8. In the shapes FileToFolder (one source, a regular file), TreeToFolder (one source)
  and ManyToFolder (any sources): if the target exists and is not a directory, the
  validator exits with "Target ... is not a folder."; if the target does not exist, the
  target check passes: \<^verbatim>\<open>checkCopySyntaxTypeB\<close> and \<^verbatim>\<open>checkCopySyntaxTypeD\<close> accept,
  and \<^verbatim>\<open>checkCopySyntaxTypeC\<close> goes on to its source loop, whose result is never that
  exit. That the source is a regular file is asked of FileToFolder only; nothing is asked
  of the sources of the other two shapes.
\<close>

theorem target_not_folder:
  "(url2Stat e tgtURL = Inr (c', tgtContent) \<and> \<not> IsDir (Type tgtContent) \<longrightarrow>
       (url2Stat e srcURL = Inr (c, srcContent) \<and> IsRegular (Type srcContent) \<longrightarrow>
          checkCopySyntaxTypeB e [srcURL] tgtURL mv
            = Inl (FatalExit (Trace errInvalidArgument [tgtURL])
                    (''Target `'' @ tgtURL @ ''` is not a folder.'')))
     \<and> checkCopySyntaxTypeC e [treeURL] tgtURL isRecursive mv
          = Inl (FatalExit (Trace errInvalidArgument [tgtURL])
                  (''Target `'' @ tgtURL @ ''` is not a folder.''))
     \<and> checkCopySyntaxTypeD e srcURLs tgtURL mv
          = Inl (FatalExit (Trace errInvalidArgument [tgtURL])
                  (''Target `'' @ tgtURL @ ''` is not a folder.'')))
   \<and> (url2Stat e tgtURL = Inl err \<longrightarrow>
       (url2Stat e srcURL = Inr (c, srcContent) \<and> IsRegular (Type srcContent) \<longrightarrow>
          checkCopySyntaxTypeB e [srcURL] tgtURL mv = Inr ())
     \<and> checkCopySyntaxTypeC e [treeURL] tgtURL isRecursive mv
          = checkCopySyntaxTypeC_sources e [treeURL] tgtURL isRecursive mv
     \<and> checkCopySyntaxTypeC e [treeURL] tgtURL isRecursive mv
          \<noteq> Inl (FatalExit (Trace errInvalidArgument [tgtURL])
                  (''Target `'' @ tgtURL @ ''` is not a folder.''))
     \<and> checkCopySyntaxTypeD e srcURLs tgtURL mv = Inr ())"
proof -
  have b: "checkCopySyntaxTypeB e [srcURL] tgtURL mv =
      (case url2Stat e tgtURL of
         Inl err \<Rightarrow> Inr ()
       | Inr st \<Rightarrow>
           if \<not> IsDir (Type (snd st))
           then Inl (FatalExit (Trace errInvalidArgument [tgtURL])
                      (''Target `'' @ tgtURL @ ''` is not a folder.''))
           else Inr ())"
    if "url2Stat e srcURL = Inr (c, srcContent)" "IsRegular (Type srcContent)"
    using that by (simp add: checkCopySyntaxTypeB_def split: sum.splits prod.splits)
  have d: "checkCopySyntaxTypeD e srcURLs tgtURL mv =
      (case url2Stat e tgtURL of
         Inl err \<Rightarrow> Inr ()
       | Inr st \<Rightarrow>
           if \<not> IsDir (Type (snd st))
           then Inl (FatalExit (Trace errInvalidArgument [tgtURL])
                      (''Target `'' @ tgtURL @ ''` is not a folder.''))
           else Inr ())"
    by (simp add: checkCopySyntaxTypeD_def split: sum.splits prod.splits)
  have n: "checkCopySyntaxTypeC_sources e [treeURL] tgtURL isRecursive mv
              \<noteq> Inl (FatalExit (Trace errInvalidArgument [tgtURL])
                      (''Target `'' @ tgtURL @ ''` is not a folder.''))"
    by (rule typeC_sources_not_target)
  show ?thesis
    using n b by (simp add: d typeC_single del: checkCopySyntaxTypeC_sources.simps)
qed

text \<open>
  The three validators on the existing file \<open>/backup\<close> and on the missing \<open>/new\<close>; for
  the last two shapes also where no source is a regular file.
\<close>

theorem target_not_folder_witness:
  "checkCopySyntaxTypeB (exampleEnv statTreeFiles (copyURLsTypeB, None)) [''/b.txt''] ''/backup'' False
     = Inl (FatalExit (ProbeError InvalidArgumentCause [[''/backup'']])
             ''Target `/backup` is not a folder.'')
   \<and> checkCopySyntaxTypeC (exampleEnv statTreeFiles (copyURLsTypeC, None)) [''/data''] ''/backup'' True False
     = Inl (FatalExit (ProbeError InvalidArgumentCause [[''/backup'']])
             ''Target `/backup` is not a folder.'')
   \<and> checkCopySyntaxTypeD (exampleEnv statTreeFiles (copyURLsTypeD, None))
        [''/data'', ''/data/logs''] ''/backup'' False
     = Inl (FatalExit (ProbeError InvalidArgumentCause [[''/backup'']])
             ''Target `/backup` is not a folder.'')
   \<and> checkCopySyntaxTypeB (exampleEnv statTreeFiles (copyURLsTypeB, None)) [''/b.txt''] ''/new'' False
     = Inr ()
   \<and> checkCopySyntaxTypeD (exampleEnv statTree (copyURLsTypeD, None))
        [''/data'', ''/data/logs''] ''/new'' False
     = Inr ()
   \<and> checkCopySyntaxTypeC (exampleEnv statTree (copyURLsTypeC, None)) [''/data''] ''/new'' True False
     \<noteq> Inl (FatalExit (ProbeError InvalidArgumentCause [[''/new'']])
             ''Target `/new` is not a folder.'')"
proof -
  let ?e = "\<lambda>g. exampleEnv statTreeFiles (g, None)"
  let ?t = "\<lambda>g. exampleEnv statTree (g, None)"
  have s: "url2Stat (?e g) ''/b.txt''
             = Inr (exampleClient ''/b.txt'', \<lparr>Type = \<lparr>IsDir = False, IsRegular = True\<rparr>\<rparr>)
           \<and> IsRegular (Type \<lparr>Type = \<lparr>IsDir = False, IsRegular = True\<rparr>\<rparr>)" for g
    by (simp add: example_defs)
  have t: "url2Stat (?e g) ''/backup''
             = Inr (exampleClient ''/backup'', \<lparr>Type = \<lparr>IsDir = False, IsRegular = True\<rparr>\<rparr>)
           \<and> \<not> IsDir (Type \<lparr>Type = \<lparr>IsDir = False, IsRegular = True\<rparr>\<rparr>)" for g
    by (simp add: example_defs)
  have m: "url2Stat (?e g) ''/new''
             = Inl (ProbeError (ExternalCause ''Object does not exist'') [])" for g
    by (simp add: example_defs)
  have m': "url2Stat (?t g) ''/new''
             = Inl (ProbeError (ExternalCause ''Object does not exist'') [])" for g
    by (simp add: example_defs)
  note B = target_not_folder [where tgtURL = "''/backup''" and mv = False
      and c' = "exampleClient ''/backup''"
      and tgtContent = "\<lparr>Type = \<lparr>IsDir = False, IsRegular = True\<rparr>\<rparr>"
      and srcURL = "''/b.txt''" and c = "exampleClient ''/b.txt''"
      and srcContent = "\<lparr>Type = \<lparr>IsDir = False, IsRegular = True\<rparr>\<rparr>"
      and treeURL = "''/data''" and isRecursive = True
      and srcURLs = "[''/data'', ''/data/logs'']"]
  note N = target_not_folder [where tgtURL = "''/new''" and mv = False
      and err = "ProbeError (ExternalCause ''Object does not exist'') []"
      and srcURL = "''/b.txt''" and c = "exampleClient ''/b.txt''"
      and srcContent = "\<lparr>Type = \<lparr>IsDir = False, IsRegular = True\<rparr>\<rparr>"
      and treeURL = "''/data''" and isRecursive = True
      and srcURLs = "[''/data'', ''/data/logs'']"]
  have 1: "checkCopySyntaxTypeB (?e copyURLsTypeB) [''/b.txt''] ''/backup'' False
     = Inl (FatalExit (ProbeError InvalidArgumentCause [[''/backup'']])
             ''Target `/backup` is not a folder.'')"
    using B [of "?e copyURLsTypeB"] s [of copyURLsTypeB] t [of copyURLsTypeB]
    by (simp add: errInvalidArgument_def)
  have 2: "checkCopySyntaxTypeC (?e copyURLsTypeC) [''/data''] ''/backup'' True False
     = Inl (FatalExit (ProbeError InvalidArgumentCause [[''/backup'']])
             ''Target `/backup` is not a folder.'')"
    using B [of "?e copyURLsTypeC"] t [of copyURLsTypeC]
    by (simp add: errInvalidArgument_def del: checkCopySyntaxTypeC_sources.simps)
  have 3: "checkCopySyntaxTypeD (?e copyURLsTypeD) [''/data'', ''/data/logs''] ''/backup'' False
     = Inl (FatalExit (ProbeError InvalidArgumentCause [[''/backup'']])
             ''Target `/backup` is not a folder.'')"
    using B [of "?e copyURLsTypeD"] t [of copyURLsTypeD]
    by (simp add: errInvalidArgument_def)
  have 4: "checkCopySyntaxTypeB (?e copyURLsTypeB) [''/b.txt''] ''/new'' False = Inr ()"
    using N [of "?e copyURLsTypeB"] s [of copyURLsTypeB] m [of copyURLsTypeB]
    by simp
  have 5: "checkCopySyntaxTypeD (?t copyURLsTypeD) [''/data'', ''/data/logs''] ''/new'' False
     = Inr ()"
    using N [of "?t copyURLsTypeD"] m' [of copyURLsTypeD]
    by simp
  have 6: "checkCopySyntaxTypeC (?t copyURLsTypeC) [''/data''] ''/new'' True False
     \<noteq> Inl (FatalExit (ProbeError InvalidArgumentCause [[''/new'']])
             ''Target `/new` is not a folder.'')"
    using N [of "?t copyURLsTypeC"] m' [of copyURLsTypeC]
    by (auto simp add: errInvalidArgument_def simp del: checkCopySyntaxTypeC_sources.simps)
  from 1 2 3 4 5 6 show ?thesis by blast
qed

section \<open>The classifier (C3)\<close>





end
